theory Spec2Isabelle
  imports Main "HOL-Library.Sublist"
begin

section \<open>JavaScript truthiness on the values the stores test\<close>

text \<open>
  The stores use \<^verbatim>\<open>a || b\<close> and \<^verbatim>\<open>if (a)\<close> on strings that may be absent.
  An absent value (\<^verbatim>\<open>undefined\<close>, \<^verbatim>\<open>null\<close>) is \<open>None\<close>; a string is falsy
  exactly when it is empty.
\<close>

definition truthy :: "string \<Rightarrow> bool" where
  "truthy s = (s \<noteq> [])"

definition truthy_opt :: "string option \<Rightarrow> bool" where
  "truthy_opt v = (case v of None \<Rightarrow> False | Some s \<Rightarrow> truthy s)"

text \<open>\<^verbatim>\<open>v || d\<close> where \<open>d\<close> is a string.\<close>

definition or_default :: "string option \<Rightarrow> string \<Rightarrow> string" where
  "or_default v d = (case v of None \<Rightarrow> d | Some s \<Rightarrow> if truthy s then s else d)"

section \<open>Data model (\<^verbatim>\<open>@/types\<close>)\<close>

text \<open>
  \<^verbatim>\<open>IUser\<close>, \<^verbatim>\<open>ILoginCredentials\<close>, \<^verbatim>\<open>IRegisterData\<close> and \<^verbatim>\<open>IApiResponse\<close>
  as the interfaces declare them. Field names carry a prefix where two interfaces share a
  name or the name is a HOL constant (\<^verbatim>\<open>id\<close>). \<^verbatim>\<open>role\<close> is a string: at run time
  the Supabase store copies whatever truthy value the metadata holds.
\<close>

record IUser =
  user_id :: string
  user_email :: string
  user_name :: string
  user_role :: string
  user_department :: "string option"
  createdAt :: string
  updatedAt :: string

record ILoginCredentials =
  cred_email :: string
  cred_password :: string

record IRegisterData =
  reg_email :: string
  reg_password :: string
  reg_name :: string
  reg_department :: "string option"

record 'a IApiResponse =
  success :: bool
  data :: "'a option"
  message :: "string option"

text \<open>The three state fields of \<^verbatim>\<open>IAuthStore\<close>: the Session.\<close>

record Session =
  user :: "IUser option"
  token :: "string option"
  isAuthenticated :: bool

definition initial_session :: Session where
  "initial_session = \<lparr>user = None, token = None, isAuthenticated = False\<rparr>"

text \<open>The two objects the stores pass to \<^verbatim>\<open>set\<close>.\<close>

definition unauthenticated :: Session where
  "unauthenticated = \<lparr>user = None, token = None, isAuthenticated = False\<rparr>"

definition authenticated :: "IUser \<Rightarrow> string \<Rightarrow> Session" where
  "authenticated u t = \<lparr>user = Some u, token = Some t, isAuthenticated = True\<rparr>"

text \<open>How an asynchronous store operation ends: its promise resolves, or rejects with
  \<^verbatim>\<open>new Error(message)\<close>.\<close>

datatype completion = Resolved | Rejected string

section \<open>The identity provider of the Supabase store\<close>

text \<open>
  The Supabase client is an external library; these are the parts of its \<^verbatim>\<open>User\<close>,
  \<^verbatim>\<open>Session\<close> and \<^verbatim>\<open>AuthError\<close> objects that the store reads. \<^verbatim>\<open>email\<close> is
  read through the non-null assertion \<^verbatim>\<open>email!\<close> and is taken as present;
  \<^verbatim>\<open>user_metadata\<close> is read through \<^verbatim>\<open>?.\<close> and each of its entries may be absent.
\<close>

record user_metadata =
  md_name :: "string option"
  md_role :: "string option"
  md_department :: "string option"

record sb_user =
  sb_id :: string
  sb_email :: string
  sb_user_metadata :: "user_metadata option"
  created_at :: string
  updated_at :: string

record sb_session =
  access_token :: string
  session_user :: "sb_user option"

datatype auth_error = AuthError (auth_message: string)

text \<open>
  What \<^verbatim>\<open>signInWithPassword\<close> and \<^verbatim>\<open>signUp\<close> can do: reject (throw), or resolve
  to \<^verbatim>\<open>{ data: { user, session }, error }\<close>.
\<close>

datatype auth_response =
  AuthThrows auth_error
| AuthReturns "sb_user option" "sb_session option" "auth_error option"

text \<open>\<^verbatim>\<open>signOut\<close>: rejects, or resolves to \<^verbatim>\<open>{ error }\<close>.\<close>

datatype sign_out_response = SignOutThrows auth_error | SignOutReturns "auth_error option"

text \<open>\<^verbatim>\<open>getSession\<close>: rejects, or resolves to \<^verbatim>\<open>{ data: { session } }\<close>.\<close>

datatype get_session_response = GetSessionThrows auth_error | GetSessionReturns "sb_session option"

section \<open>The Supabase store (\<^verbatim>\<open>useAuthStore\<close>, Supabase client)\<close>

text \<open>\<^verbatim>\<open>user_metadata?.field\<close>.\<close>

definition metadata_field :: "(user_metadata \<Rightarrow> string option) \<Rightarrow> sb_user \<Rightarrow> string option" where
  "metadata_field f u = (case sb_user_metadata u of None \<Rightarrow> None | Some md \<Rightarrow> f md)"

text \<open>The object literal under ``Transform Supabase user to IUser format'' in
  \<^verbatim>\<open>login\<close> and \<^verbatim>\<open>checkAuth\<close>.\<close>

definition transform_user :: "sb_user \<Rightarrow> IUser" where
  "transform_user u =
     \<lparr>user_id = sb_id u,
      user_email = sb_email u,
      user_name = or_default (metadata_field md_name u) (sb_email u),
      user_role = or_default (metadata_field md_role u) ''user'',
      user_department = metadata_field md_department u,
      createdAt = created_at u,
      updatedAt = updated_at u\<rparr>"

text \<open>The object literal of \<^verbatim>\<open>register\<close>.\<close>

definition transform_registered :: "IRegisterData \<Rightarrow> sb_user \<Rightarrow> IUser" where
  "transform_registered userData u =
     \<lparr>user_id = sb_id u,
      user_email = sb_email u,
      user_name = reg_name userData,
      user_role = ''user'',
      user_department = reg_department userData,
      createdAt = created_at u,
      updatedAt = updated_at u\<rparr>"

text \<open>
  Each operation takes what the provider answers and the Session before the call, and
  returns how the promise ends and the Session after it. The body of each \<^verbatim>\<open>try\<close>
  block is a function of its own: \<open>Inl e\<close> is the exception \<open>e\<close> reaching the
  \<^verbatim>\<open>catch\<close> clause (no \<^verbatim>\<open>set\<close> has run by then), \<open>Inr s\<close> the Session when the
  block ends normally.
\<close>

definition login_try :: "auth_response \<Rightarrow> Session \<Rightarrow> auth_error + Session" where
  "login_try r s =
     (case r of
        AuthThrows e \<Rightarrow> Inl e
      | AuthReturns du ds err \<Rightarrow>
          (case err of
             Some e \<Rightarrow> Inl e
           | None \<Rightarrow>
               (case du of
                  None \<Rightarrow> Inr s
                | Some u \<Rightarrow>
                    (case ds of
                       None \<Rightarrow> Inr s
                     | Some sess \<Rightarrow> Inr (authenticated (transform_user u) (access_token sess))))))"

definition login :: "ILoginCredentials \<Rightarrow> auth_response \<Rightarrow> Session \<Rightarrow> completion \<times> Session" where
  "login credentials r s =
     (case login_try r s of
        Inl e \<Rightarrow> (Rejected (or_default (Some (auth_message e)) ''Login failed''), s)
      | Inr s' \<Rightarrow> (Resolved, s'))"

definition register_try :: "IRegisterData \<Rightarrow> auth_response \<Rightarrow> Session \<Rightarrow> auth_error + Session" where
  "register_try userData r s =
     (case r of
        AuthThrows e \<Rightarrow> Inl e
      | AuthReturns du ds err \<Rightarrow>
          (case err of
             Some e \<Rightarrow> Inl e
           | None \<Rightarrow>
               (case du of
                  None \<Rightarrow> Inr s
                | Some u \<Rightarrow>
                    (case ds of
                       None \<Rightarrow> Inr s
                     | Some sess \<Rightarrow>
                         Inr (authenticated (transform_registered userData u) (access_token sess))))))"

definition register :: "IRegisterData \<Rightarrow> auth_response \<Rightarrow> Session \<Rightarrow> completion \<times> Session" where
  "register userData r s =
     (case register_try userData r s of
        Inl e \<Rightarrow> (Rejected (or_default (Some (auth_message e)) ''Registration failed''), s)
      | Inr s' \<Rightarrow> (Resolved, s'))"

text \<open>\<^verbatim>\<open>logout\<close>: the \<^verbatim>\<open>catch\<close> clause only logs, then the store is reset.\<close>

definition logout :: "sign_out_response \<Rightarrow> Session \<Rightarrow> completion \<times> Session" where
  "logout r s =
     (case r of
        SignOutThrows e \<Rightarrow> (Resolved, unauthenticated)
      | SignOutReturns err \<Rightarrow> (Resolved, unauthenticated))"

definition checkAuth_try :: "get_session_response \<Rightarrow> Session \<Rightarrow> auth_error + Session" where
  "checkAuth_try r s =
     (case r of
        GetSessionThrows e \<Rightarrow> Inl e
      | GetSessionReturns None \<Rightarrow> Inr unauthenticated
      | GetSessionReturns (Some sess) \<Rightarrow>
          (case session_user sess of
             None \<Rightarrow> Inr unauthenticated
           | Some u \<Rightarrow> Inr (authenticated (transform_user u) (access_token sess))))"

definition checkAuth :: "get_session_response \<Rightarrow> Session \<Rightarrow> completion \<times> Session" where
  "checkAuth r s =
     (case checkAuth_try r s of
        Inl e \<Rightarrow> (Resolved, unauthenticated)
      | Inr s' \<Rightarrow> (Resolved, s'))"

text \<open>A completed operation of the Supabase store, with the provider's answer to it.\<close>

datatype store_op =
  Login ILoginCredentials auth_response
| Register IRegisterData auth_response
| Logout sign_out_response
| CheckAuth get_session_response

fun store_step :: "store_op \<Rightarrow> Session \<Rightarrow> Session" where
  "store_step (Login c r) s = snd (login c r s)"
| "store_step (Register d r) s = snd (register d r s)"
| "store_step (Logout r) s = snd (logout r s)"
| "store_step (CheckAuth r) s = snd (checkAuth r s)"

definition store_run :: "store_op list \<Rightarrow> Session \<Rightarrow> Session" where
  "store_run ops s = fold store_step ops s"

section \<open>The REST store (\<^verbatim>\<open>src/store/authStore.ts\<close>, \<^verbatim>\<open>authAPI\<close>)\<close>

text \<open>
  An axios error as the store and the response interceptor read it:
  \<^verbatim>\<open>error.response?.status\<close>, \<^verbatim>\<open>error.response?.data?.message\<close> and
  \<^verbatim>\<open>error.message\<close>. An \<^verbatim>\<open>Error\<close> thrown by the store itself has no response.
\<close>

record error_response =
  status :: nat
  data_message :: "string option"

record api_error =
  response :: "error_response option"
  error_message :: string

datatype 'a api_result = Rejects api_error | Resolves "'a IApiResponse"

record auth_payload =
  payload_user :: IUser
  payload_token :: string

text \<open>The state the REST store works on: the Session and the entry
  \<^verbatim>\<open>LOCAL_STORAGE_KEYS.AUTH_TOKEN\<close> of \<^verbatim>\<open>localStorage\<close>.\<close>

record api_state =
  session :: Session
  auth_token :: "string option"

text \<open>The response interceptor of \<^verbatim>\<open>lib/api.ts\<close>: a 401 removes the stored token
  before the rejection reaches the caller.\<close>

definition response_interceptor :: "api_error \<Rightarrow> string option \<Rightarrow> string option" where
  "response_interceptor e stored =
     (case response e of
        None \<Rightarrow> stored
      | Some rs \<Rightarrow> if status rs = 401 then None else stored)"

text \<open>A call of \<^verbatim>\<open>authAPI\<close>: the exception or the response body, and the stored token
  after the interceptor.\<close>

definition api_call :: "'a api_result \<Rightarrow> string option \<Rightarrow> (api_error + 'a IApiResponse) \<times> string option" where
  "api_call r stored =
     (case r of
        Rejects e \<Rightarrow> (Inl e, response_interceptor e stored)
      | Resolves resp \<Rightarrow> (Inr resp, stored))"

text \<open>\<^verbatim>\<open>error.response?.data?.message || error.message || fallback\<close>.\<close>

definition catch_message :: "api_error \<Rightarrow> string \<Rightarrow> string" where
  "catch_message e fallback =
     (let m = (case response e of None \<Rightarrow> None | Some rs \<Rightarrow> data_message rs)
      in if truthy_opt m then or_default m fallback
         else or_default (Some (error_message e)) fallback)"

definition thrown :: "string \<Rightarrow> api_error" where
  "thrown m = \<lparr>response = None, error_message = m\<rparr>"

text \<open>The \<^verbatim>\<open>try\<close> block shared in shape by \<^verbatim>\<open>login\<close> and \<^verbatim>\<open>register\<close> of the
  REST store; \<open>fallback\<close> is \<^verbatim>\<open>'Login failed'\<close> or \<^verbatim>\<open>'Registration failed'\<close>.\<close>

definition api_sign_try ::
  "string \<Rightarrow> (api_error + auth_payload IApiResponse) \<Rightarrow> api_state \<Rightarrow> api_error + api_state" where
  "api_sign_try fallback res st =
     (case res of
        Inl e \<Rightarrow> Inl e
      | Inr resp \<Rightarrow>
          (case data resp of
             None \<Rightarrow> Inl (thrown (or_default (message resp) fallback))
           | Some p \<Rightarrow>
               if success resp
               then Inr \<lparr>session = authenticated (payload_user p) (payload_token p),
                         auth_token = Some (payload_token p)\<rparr>
               else Inl (thrown (or_default (message resp) fallback))))"

definition api_login ::
  "ILoginCredentials \<Rightarrow> auth_payload api_result \<Rightarrow> api_state \<Rightarrow> completion \<times> api_state" where
  "api_login credentials r st =
     (let (res, stored) = api_call r (auth_token st);
          st1 = st\<lparr>auth_token := stored\<rparr>
      in case api_sign_try ''Login failed'' res st1 of
           Inl e \<Rightarrow> (Rejected (catch_message e ''Login failed''), st1)
         | Inr st' \<Rightarrow> (Resolved, st'))"

definition api_register ::
  "IRegisterData \<Rightarrow> auth_payload api_result \<Rightarrow> api_state \<Rightarrow> completion \<times> api_state" where
  "api_register userData r st =
     (let (res, stored) = api_call r (auth_token st);
          st1 = st\<lparr>auth_token := stored\<rparr>
      in case api_sign_try ''Registration failed'' res st1 of
           Inl e \<Rightarrow> (Rejected (catch_message e ''Registration failed''), st1)
         | Inr st' \<Rightarrow> (Resolved, st'))"

text \<open>\<^verbatim>\<open>logout\<close> removes the token and resets the store first; the request to the
  API is not awaited and its failure is only logged (its interceptor can at most remove the
  token again).\<close>

definition api_logout :: "unit api_result \<Rightarrow> api_state \<Rightarrow> completion \<times> api_state" where
  "api_logout r st =
     (let st1 = \<lparr>session = unauthenticated, auth_token = None\<rparr>
      in (Resolved, st1\<lparr>auth_token := snd (api_call r (auth_token st1))\<rparr>))"

definition api_checkAuth_try ::
  "string \<Rightarrow> (api_error + IUser IApiResponse) \<Rightarrow> api_state \<Rightarrow> api_error + api_state" where
  "api_checkAuth_try tok res st =
     (case res of
        Inl e \<Rightarrow> Inl e
      | Inr resp \<Rightarrow>
          (case data resp of
             None \<Rightarrow> Inl (thrown ''Token verification failed'')
           | Some u \<Rightarrow>
               if success resp
               then Inr (st\<lparr>session := authenticated u tok\<rparr>)
               else Inl (thrown ''Token verification failed'')))"

definition api_checkAuth :: "IUser api_result \<Rightarrow> api_state \<Rightarrow> completion \<times> api_state" where
  "api_checkAuth r st =
     (case auth_token st of
        None \<Rightarrow> (Resolved, st\<lparr>session := unauthenticated\<rparr>)
      | Some tok \<Rightarrow>
          if \<not> truthy tok then (Resolved, st\<lparr>session := unauthenticated\<rparr>)
          else
            (let (res, stored) = api_call r (auth_token st);
                 st1 = st\<lparr>auth_token := stored\<rparr>
             in case api_checkAuth_try tok res st1 of
                  Inl e \<Rightarrow> (Resolved, \<lparr>session = unauthenticated, auth_token = None\<rparr>)
                | Inr st' \<Rightarrow> (Resolved, st')))"

datatype api_op =
  ApiLogin ILoginCredentials "auth_payload api_result"
| ApiRegister IRegisterData "auth_payload api_result"
| ApiLogout "unit api_result"
| ApiCheckAuth "IUser api_result"

fun api_step :: "api_op \<Rightarrow> api_state \<Rightarrow> api_state" where
  "api_step (ApiLogin c r) st = snd (api_login c r st)"
| "api_step (ApiRegister d r) st = snd (api_register d r st)"
| "api_step (ApiLogout r) st = snd (api_logout r st)"
| "api_step (ApiCheckAuth r) st = snd (api_checkAuth r st)"

definition api_run :: "api_op list \<Rightarrow> api_state \<Rightarrow> api_state" where
  "api_run ops st = fold api_step ops st"

section \<open>The Session invariant\<close>

definition session_invariant :: "Session \<Rightarrow> bool" where
  "session_invariant s = (isAuthenticated s = (user s \<noteq> None \<and> token s \<noteq> None))"

section \<open>The Auth Facade (\<^verbatim>\<open>useAuth\<close>)\<close>

text \<open>
  The facade calls operations of the store. What it does is recorded as the list of calls
  it makes, in order.
\<close>

datatype store_call = CallLogout | CallCheckAuth

datatype effect_action = Subscribe | Invoke store_call

text \<open>The callback given to \<^verbatim>\<open>supabase.auth.onAuthStateChange\<close>: the event tag and
  the session payload (\<^verbatim>\<open>null\<close> is \<open>None\<close>).\<close>

definition auth_state_listener :: "string \<Rightarrow> sb_session option \<Rightarrow> store_call list" where
  "auth_state_listener event sess =
     (if event = ''SIGNED_OUT'' then [CallLogout]
      else if sess \<noteq> None then [CallCheckAuth]
      else [])"

text \<open>The body of the effect of the Supabase facade, and of the REST facade, which has
  no subscription.\<close>

definition useAuth_effect :: "effect_action list" where
  "useAuth_effect = [Subscribe, Invoke CallCheckAuth]"

definition api_useAuth_effect :: "effect_action list" where
  "api_useAuth_effect = [Invoke CallCheckAuth]"

text \<open>
  \<^verbatim>\<open>useEffect(body, [])\<close>: with an empty dependency list the body runs after the
  render that mounts the view (render \<open>0\<close>) and after no later render.
  \<open>view_effects body n\<close> is everything the effect does over the mount and \<open>n\<close>
  re-renders of one view.
\<close>

definition effect_on_render :: "effect_action list \<Rightarrow> nat \<Rightarrow> effect_action list" where
  "effect_on_render body k = (if k = 0 then body else [])"

definition view_effects :: "effect_action list \<Rightarrow> nat \<Rightarrow> effect_action list" where
  "view_effects body n = concat (map (effect_on_render body) [0..<Suc n])"

section \<open>The Route Guard (\<^verbatim>\<open>ProtectedRoute\<close>)\<close>

definition ROUTES_HOME :: string where
  "ROUTES_HOME = ''/''"

definition ROUTES_LOGIN :: string where
  "ROUTES_LOGIN = ''/auth/login''"

text \<open>
  What the component returns: the loading skeleton, a \<^verbatim>\<open>Navigate\<close> element with its
  target and the location stored under \<^verbatim>\<open>state.from\<close> (if any), or the children.
\<close>

datatype route_outcome = Skeleton | Navigate string "string option" | Children

text \<open>
  \<open>requireRole\<close> is an optional property; \<open>isAuthenticated\<close> is compared with
  \<^verbatim>\<open>undefined\<close>, which is \<open>None\<close>; \<open>location\<close> is what \<^verbatim>\<open>useLocation\<close> returns.
\<close>

definition ProtectedRoute ::
  "string option \<Rightarrow> bool option \<Rightarrow> IUser option \<Rightarrow> string \<Rightarrow> route_outcome" where
  "ProtectedRoute requireRole isAuth usr location =
     (if isAuth = None \<or> (isAuth = Some True \<and> usr = None) then Skeleton
      else if isAuth \<noteq> Some True then Navigate ROUTES_LOGIN (Some location)
      else if truthy_opt requireRole \<and> map_option user_role usr \<noteq> requireRole
      then Navigate (if requireRole = Some ''admin'' then ROUTES_LOGIN else ROUTES_HOME) None
      else Children)"

section \<open>Basic facts\<close>

lemma or_default_sublist: "sublist m (or_default (Some m) d)"
  by (simp add: or_default_def truthy_def)

lemma or_default_truthy: "truthy m \<Longrightarrow> or_default (Some m) d = m"
  by (simp add: or_default_def)

lemma invariant_unauthenticated: "session_invariant unauthenticated"
  by (simp add: session_invariant_def unauthenticated_def)

lemma invariant_authenticated: "session_invariant (authenticated u t)"
  by (simp add: session_invariant_def authenticated_def)

lemma invariant_initial: "session_invariant initial_session"
  by (simp add: session_invariant_def initial_session_def)

subsection \<open>Each operation of the Supabase store keeps the invariant\<close>

lemma login_try_cases:
  "login_try r s = Inr s' \<Longrightarrow> s' = s \<or> (\<exists>u t. s' = authenticated u t)"
  by (auto simp: login_try_def split: auth_response.splits option.splits)

lemma register_try_cases:
  "register_try d r s = Inr s' \<Longrightarrow> s' = s \<or> (\<exists>u t. s' = authenticated u t)"
  by (auto simp: register_try_def split: auth_response.splits option.splits)

lemma checkAuth_try_cases:
  "checkAuth_try r s = Inr s' \<Longrightarrow> s' = unauthenticated \<or> (\<exists>u t. s' = authenticated u t)"
  by (auto simp: checkAuth_try_def split: get_session_response.splits option.splits)

lemma login_invariant:
  assumes "session_invariant s"
  shows "session_invariant (snd (login c r s))"
proof (cases "login_try r s")
  case (Inl e)
  then show ?thesis using assms by (simp add: login_def)
next
  case (Inr s')
  then show ?thesis
    using assms login_try_cases [OF Inr] by (auto simp: login_def invariant_authenticated)
qed

lemma register_invariant:
  assumes "session_invariant s"
  shows "session_invariant (snd (register d r s))"
proof (cases "register_try d r s")
  case (Inl e)
  then show ?thesis using assms by (simp add: register_def)
next
  case (Inr s')
  then show ?thesis
    using assms register_try_cases [OF Inr] by (auto simp: register_def invariant_authenticated)
qed

lemma logout_unauthenticated: "logout r s = (Resolved, unauthenticated)"
  by (cases r) (simp_all add: logout_def)

lemma checkAuth_invariant: "session_invariant (snd (checkAuth r s))"
proof (cases "checkAuth_try r s")
  case (Inl e)
  then show ?thesis by (simp add: checkAuth_def invariant_unauthenticated)
next
  case (Inr s')
  then show ?thesis
    using checkAuth_try_cases [OF Inr]
    by (auto simp: checkAuth_def invariant_authenticated invariant_unauthenticated)
qed

lemma store_step_invariant: "session_invariant s \<Longrightarrow> session_invariant (store_step x s)"
  by (cases x)
     (simp_all add: login_invariant register_invariant checkAuth_invariant
        logout_unauthenticated invariant_unauthenticated)

lemma store_run_invariant: "session_invariant s \<Longrightarrow> session_invariant (store_run ops s)"
  unfolding store_run_def
  by (induction ops arbitrary: s) (simp_all add: store_step_invariant)

subsection \<open>Each operation of the REST store keeps the invariant\<close>

lemma api_sign_try_cases:
  "api_sign_try fb res st = Inr st' \<Longrightarrow> session_invariant (session st')"
  by (auto simp: api_sign_try_def invariant_authenticated
        split: sum.splits option.splits if_splits)

lemma api_call_Inl: "fst (api_call r stored) = Inl e \<Longrightarrow> r = Rejects e"
  by (cases r) (simp_all add: api_call_def)

lemma api_login_invariant:
  assumes "session_invariant (session st)"
  shows "session_invariant (session (snd (api_login c r st)))"
proof (cases "api_sign_try ''Login failed'' (fst (api_call r (auth_token st)))
                (st\<lparr>auth_token := snd (api_call r (auth_token st))\<rparr>)")
  case (Inl e)
  then show ?thesis using assms by (simp add: api_login_def split_beta)
next
  case (Inr st')
  then show ?thesis
    using api_sign_try_cases [OF Inr] by (simp add: api_login_def split_beta)
qed

lemma api_register_invariant:
  assumes "session_invariant (session st)"
  shows "session_invariant (session (snd (api_register d r st)))"
proof (cases "api_sign_try ''Registration failed'' (fst (api_call r (auth_token st)))
                (st\<lparr>auth_token := snd (api_call r (auth_token st))\<rparr>)")
  case (Inl e)
  then show ?thesis using assms by (simp add: api_register_def split_beta)
next
  case (Inr st')
  then show ?thesis
    using api_sign_try_cases [OF Inr] by (simp add: api_register_def split_beta)
qed

lemma api_logout_state:
  "api_logout r st = (Resolved, \<lparr>session = unauthenticated, auth_token = None\<rparr>)"
  by (cases r)
     (simp_all add: api_logout_def api_call_def response_interceptor_def Let_def
        split: option.splits)

lemma api_checkAuth_cases:
  "session (snd (api_checkAuth r st)) = unauthenticated
   \<or> (\<exists>u tok. session (snd (api_checkAuth r st)) = authenticated u tok)"
proof (cases "auth_token st")
  case None
  then show ?thesis by (simp add: api_checkAuth_def)
next
  case (Some tok)
  show ?thesis
  proof (cases "truthy tok")
    case False
    with Some show ?thesis by (simp add: api_checkAuth_def)
  next
    case True
    show ?thesis
    proof (cases r)
      case (Rejects e)
      with Some True show ?thesis
        by (simp add: api_checkAuth_def api_call_def api_checkAuth_try_def)
    next
      case (Resolves resp)
      with Some True show ?thesis
        by (cases "data resp")
           (auto simp: api_checkAuth_def api_call_def api_checkAuth_try_def)
    qed
  qed
qed

lemma api_checkAuth_invariant: "session_invariant (session (snd (api_checkAuth r st)))"
  using api_checkAuth_cases [of r st]
  by (auto simp: invariant_authenticated invariant_unauthenticated)

lemma api_step_invariant:
  "session_invariant (session st) \<Longrightarrow> session_invariant (session (api_step x st))"
  by (cases x)
     (simp_all add: api_login_invariant api_register_invariant api_checkAuth_invariant
        api_logout_state invariant_unauthenticated)

lemma api_run_invariant:
  "session_invariant (session st) \<Longrightarrow> session_invariant (session (api_run ops st))"
  unfolding api_run_def
  by (induction ops arbitrary: st) (simp_all add: api_step_invariant)

subsection \<open>The facade and the guard\<close>

lemma view_effects_mount_only: "view_effects body n = body"
proof (induction n)
  case 0
  show ?case by (simp add: view_effects_def effect_on_render_def)
next
  case (Suc n)
  have "view_effects body (Suc n) = view_effects body n @ effect_on_render body (Suc n)"
    by (simp add: view_effects_def)
  with Suc show ?case by (simp add: effect_on_render_def)
qed

lemma or_default_cases:
  "or_default v d = (case v of None \<Rightarrow> d | Some x \<Rightarrow> if x = [] then d else x)"
  by (simp add: or_default_def truthy_def split: option.splits)

lemma guard_checking:
  "ProtectedRoute requireRole None usr location = Skeleton"
  "ProtectedRoute requireRole (Some True) None location = Skeleton"
  by (simp_all add: ProtectedRoute_def)

section \<open>The claims\<close>

text \<open>
  C1. In every reachable Session state of the auth store (the initial state, and the state
  after any sequence of completed login, register, logout and checkAuth operations,
  whatever the provider answered to each), \<open>isAuthenticated\<close> is true if and only if
  both \<open>user\<close> and \<open>token\<close> are present. This holds in the Supabase store and in the
  REST store; the REST store starts with whatever token an earlier run left in
  \<^verbatim>\<open>localStorage\<close>.
\<close>

theorem reachable_session_invariant:
  "(let s = store_run ops initial_session
    in isAuthenticated s = (user s \<noteq> None \<and> token s \<noteq> None))
   \<and> (let s = session (api_run aops \<lparr>session = initial_session, auth_token = stored\<rparr>)
      in isAuthenticated s = (user s \<noteq> None \<and> token s \<noteq> None))"
proof -
  have "session_invariant (store_run ops initial_session)"
    by (rule store_run_invariant [OF invariant_initial])
  moreover have
    "session_invariant (session (api_run aops \<lparr>session = initial_session, auth_token = stored\<rparr>))"
    by (rule api_run_invariant) (simp add: invariant_initial)
  ultimately show ?thesis
    by (simp add: session_invariant_def Let_def)
qed

theorem reachable_session_invariant_witness:
  "(let s = store_run
              [Login \<lparr>cred_email = ''a@x.com'', cred_password = ''pw''\<rparr>
                 (AuthReturns
                    (Some \<lparr>sb_id = ''1'', sb_email = ''a@x.com'', sb_user_metadata = None,
                           created_at = ''2024-01-01'', updated_at = ''2024-01-02''\<rparr>)
                    (Some \<lparr>access_token = ''T1'', session_user = None\<rparr>) None),
               Logout (SignOutThrows (AuthError ''Failed to fetch'')),
               CheckAuth (GetSessionReturns None)]
              initial_session
    in isAuthenticated s = (user s \<noteq> None \<and> token s \<noteq> None))
   \<and> (let s = session (api_run
              [ApiCheckAuth (Rejects \<lparr>response = None, error_message = ''Network Error''\<rparr>),
               ApiLogout (Resolves \<lparr>success = True, data = None, message = None\<rparr>)]
              \<lparr>session = initial_session, auth_token = Some ''T0''\<rparr>)
      in isAuthenticated s = (user s \<noteq> None \<and> token s \<noteq> None))"
  by (rule reachable_session_invariant)

text \<open>
  C2. The Route Guard, applied to \<open>isAuthenticated\<close>, \<open>user\<close> and \<open>requireRole\<close>:
  when \<open>isAuthenticated\<close> is false it redirects to the login destination and records the
  requested location; when the user is authenticated (the flag is true and the user record is
  there) and a role is required that differs from the user's role, it redirects to login if
  the required role is \<^verbatim>\<open>admin\<close> and to home otherwise; when the user is authenticated
  and no role is required or the user's role is the required one, it renders the protected
  content. Login and home are different destinations. (With the flag true and no user
  record the guard shows the loading skeleton: \<open>guard_checking\<close>.)
\<close>

theorem route_guard_decision:
  "ProtectedRoute requireRole (Some False) usr location = Navigate ROUTES_LOGIN (Some location)
   \<and> (truthy r \<and> user_role u \<noteq> r \<longrightarrow>
        ProtectedRoute (Some r) (Some True) (Some u) location =
          Navigate (if r = ''admin'' then ROUTES_LOGIN else ROUTES_HOME) None)
   \<and> (\<not> truthy_opt requireRole \<or> requireRole = Some (user_role u) \<longrightarrow>
        ProtectedRoute requireRole (Some True) (Some u) location = Children)
   \<and> ROUTES_LOGIN \<noteq> ROUTES_HOME"
  by (auto simp: ProtectedRoute_def truthy_opt_def ROUTES_LOGIN_def ROUTES_HOME_def)

theorem route_guard_decision_witness:
  "ProtectedRoute (Some ''admin'') (Some False) None ''/admin/dashboard'' =
     Navigate ''/auth/login'' (Some ''/admin/dashboard'')
   \<and> ProtectedRoute (Some ''admin'') (Some True)
        (Some \<lparr>user_id = ''1'', user_email = ''a@x.com'', user_name = ''A'', user_role = ''user'',
               user_department = None, createdAt = ''c'', updatedAt = ''u''\<rparr>)
        ''/admin/dashboard'' = Navigate ''/auth/login'' None
   \<and> ProtectedRoute (Some ''agent'') (Some True)
        (Some \<lparr>user_id = ''1'', user_email = ''a@x.com'', user_name = ''A'', user_role = ''user'',
               user_department = None, createdAt = ''c'', updatedAt = ''u''\<rparr>)
        ''/tickets'' = Navigate ''/'' None
   \<and> ProtectedRoute (Some ''admin'') (Some True)
        (Some \<lparr>user_id = ''2'', user_email = ''b@x.com'', user_name = ''B'', user_role = ''admin'',
               user_department = None, createdAt = ''c'', updatedAt = ''u''\<rparr>)
        ''/admin/dashboard'' = Children
   \<and> ProtectedRoute None (Some True)
        (Some \<lparr>user_id = ''1'', user_email = ''a@x.com'', user_name = ''A'', user_role = ''user'',
               user_department = None, createdAt = ''c'', updatedAt = ''u''\<rparr>)
        ''/chat'' = Children"
  using
    route_guard_decision [where requireRole = "Some ''admin''" and usr = None
      and location = "''/admin/dashboard''" and r = "''admin''"
      and u = "\<lparr>user_id = ''1'', user_email = ''a@x.com'', user_name = ''A'', user_role = ''user'',
               user_department = None, createdAt = ''c'', updatedAt = ''u''\<rparr>"]
    route_guard_decision [where requireRole = "None" and usr = None
      and location = "''/tickets''" and r = "''agent''"
      and u = "\<lparr>user_id = ''1'', user_email = ''a@x.com'', user_name = ''A'', user_role = ''user'',
               user_department = None, createdAt = ''c'', updatedAt = ''u''\<rparr>"]
    route_guard_decision [where requireRole = "Some ''admin''" and usr = None
      and location = "''/admin/dashboard''" and r = "''admin''"
      and u = "\<lparr>user_id = ''2'', user_email = ''b@x.com'', user_name = ''B'', user_role = ''admin'',
               user_department = None, createdAt = ''c'', updatedAt = ''u''\<rparr>"]
    route_guard_decision [where requireRole = "None" and usr = None
      and location = "''/chat''" and r = "''agent''"
      and u = "\<lparr>user_id = ''1'', user_email = ''a@x.com'', user_name = ''A'', user_role = ''user'',
               user_department = None, createdAt = ''c'', updatedAt = ''u''\<rparr>"]
  by (simp add: truthy_def truthy_opt_def ROUTES_LOGIN_def ROUTES_HOME_def)

text \<open>
  C3. For every starting Session and every answer of the provider, \<open>checkAuth\<close> resolves
  (it never rejects) and leaves a definite triple: the authenticated triple when the
  provider reports a valid session, the unauthenticated triple in every other case (no
  session, a rejected or failed check, a thrown error). In the REST store a valid session is
  a stored token that the API verifies with \<open>success\<close> and a user record.
\<close>

theorem checkAuth_definite:
  "fst (checkAuth r s) = Resolved
   \<and> (\<forall>sess u. r = GetSessionReturns (Some sess) \<and> session_user sess = Some u \<longrightarrow>
         snd (checkAuth r s) =
           \<lparr>user = Some (transform_user u), token = Some (access_token sess), isAuthenticated = True\<rparr>)
   \<and> (\<not> (\<exists>sess u. r = GetSessionReturns (Some sess) \<and> session_user sess = Some u) \<longrightarrow>
         snd (checkAuth r s) = \<lparr>user = None, token = None, isAuthenticated = False\<rparr>)
   \<and> fst (api_checkAuth ar st) = Resolved
   \<and> (\<forall>tok resp u. auth_token st = Some tok \<and> truthy tok \<and> ar = Resolves resp
           \<and> success resp \<and> data resp = Some u \<longrightarrow>
         session (snd (api_checkAuth ar st)) =
           \<lparr>user = Some u, token = Some tok, isAuthenticated = True\<rparr>)
   \<and> (\<not> (\<exists>tok resp u. auth_token st = Some tok \<and> truthy tok \<and> ar = Resolves resp
           \<and> success resp \<and> data resp = Some u) \<longrightarrow>
         session (snd (api_checkAuth ar st)) = \<lparr>user = None, token = None, isAuthenticated = False\<rparr>)"
proof -
  have a: "fst (checkAuth r s) = Resolved"
    by (simp add: checkAuth_def split: sum.splits)
  have b: "snd (checkAuth r s) = authenticated (transform_user u) (access_token sess)"
    if "r = GetSessionReturns (Some sess)" "session_user sess = Some u" for sess u
    using that by (simp add: checkAuth_def checkAuth_try_def)
  have c: "snd (checkAuth r s) = unauthenticated"
    if "\<not> (\<exists>sess u. r = GetSessionReturns (Some sess) \<and> session_user sess = Some u)"
    using that
    by (auto simp: checkAuth_def checkAuth_try_def
          split: get_session_response.splits option.splits)
  have d: "fst (api_checkAuth ar st) = Resolved"
    by (simp add: api_checkAuth_def split_beta Let_def split: option.splits sum.splits)
  have e: "session (snd (api_checkAuth ar st)) = authenticated u tok"
    if "auth_token st = Some tok" "truthy tok" "ar = Resolves resp" "success resp" "data resp = Some u"
    for tok resp u
    using that by (simp add: api_checkAuth_def api_call_def api_checkAuth_try_def)
  have f: "session (snd (api_checkAuth ar st)) = unauthenticated"
    if "\<not> (\<exists>tok resp u. auth_token st = Some tok \<and> truthy tok \<and> ar = Resolves resp
           \<and> success resp \<and> data resp = Some u)"
    using that
    by (auto simp: api_checkAuth_def api_call_def api_checkAuth_try_def
          split: option.splits api_result.splits)
  from a b c d e f show ?thesis
    unfolding authenticated_def unauthenticated_def by blast
qed

theorem checkAuth_definite_witness:
  "fst (checkAuth
          (GetSessionReturns (Some \<lparr>access_token = ''T1'', session_user =
             Some \<lparr>sb_id = ''1'', sb_email = ''a@x.com'', sb_user_metadata = None,
                    created_at = ''c'', updated_at = ''u''\<rparr>\<rparr>))
          initial_session) = Resolved
   \<and> snd (checkAuth
          (GetSessionReturns (Some \<lparr>access_token = ''T1'', session_user =
             Some \<lparr>sb_id = ''1'', sb_email = ''a@x.com'', sb_user_metadata = None,
                    created_at = ''c'', updated_at = ''u''\<rparr>\<rparr>))
          initial_session) =
       \<lparr>user = Some (transform_user \<lparr>sb_id = ''1'', sb_email = ''a@x.com'', sb_user_metadata = None,
                    created_at = ''c'', updated_at = ''u''\<rparr>),
        token = Some ''T1'', isAuthenticated = True\<rparr>
   \<and> snd (checkAuth (GetSessionThrows (AuthError ''Failed to fetch''))
            \<lparr>user = Some \<lparr>user_id = ''1'', user_email = ''a@x.com'', user_name = ''A'',
                       user_role = ''user'', user_department = None,
                       createdAt = ''c'', updatedAt = ''u''\<rparr>,
         token = Some ''T0'', isAuthenticated = True\<rparr>) =
       \<lparr>user = None, token = None, isAuthenticated = False\<rparr>
   \<and> session (snd (api_checkAuth
          (Resolves \<lparr>success = True,
             data = Some \<lparr>user_id = ''1'', user_email = ''a@x.com'', user_name = ''A'',
                          user_role = ''user'', user_department = None,
                          createdAt = ''c'', updatedAt = ''u''\<rparr>,
             message = None\<rparr>)
          \<lparr>session = initial_session, auth_token = Some ''T0''\<rparr>)) =
       \<lparr>user = Some \<lparr>user_id = ''1'', user_email = ''a@x.com'', user_name = ''A'',
                      user_role = ''user'', user_department = None,
                      createdAt = ''c'', updatedAt = ''u''\<rparr>,
        token = Some ''T0'', isAuthenticated = True\<rparr>
   \<and> session (snd (api_checkAuth
          (Rejects \<lparr>response = Some \<lparr>status = 401, data_message = Some ''jwt expired''\<rparr>,
                    error_message = ''Request failed with status code 401''\<rparr>)
          \<lparr>session = initial_session, auth_token = Some ''T0''\<rparr>)) =
       \<lparr>user = None, token = None, isAuthenticated = False\<rparr>"
  using
    checkAuth_definite [where
      r = "GetSessionReturns (Some \<lparr>access_token = ''T1'', session_user =
             Some \<lparr>sb_id = ''1'', sb_email = ''a@x.com'', sb_user_metadata = None,
                    created_at = ''c'', updated_at = ''u''\<rparr>\<rparr>)"
      and s = initial_session
      and ar = "Resolves \<lparr>success = True,
             data = Some \<lparr>user_id = ''1'', user_email = ''a@x.com'', user_name = ''A'',
                          user_role = ''user'', user_department = None,
                          createdAt = ''c'', updatedAt = ''u''\<rparr>,
             message = None\<rparr>"
      and st = "\<lparr>session = initial_session, auth_token = Some ''T0''\<rparr>"]
    checkAuth_definite [where
      r = "GetSessionThrows (AuthError ''Failed to fetch'')"
      and s = "\<lparr>user = Some \<lparr>user_id = ''1'', user_email = ''a@x.com'', user_name = ''A'',
                       user_role = ''user'', user_department = None,
                       createdAt = ''c'', updatedAt = ''u''\<rparr>,
         token = Some ''T0'', isAuthenticated = True\<rparr>"
      and ar = "Rejects \<lparr>response = Some \<lparr>status = 401, data_message = Some ''jwt expired''\<rparr>,
                    error_message = ''Request failed with status code 401''\<rparr>"
      and st = "\<lparr>session = initial_session, auth_token = Some ''T0''\<rparr>"]
  by (simp add: truthy_def)

text \<open>
  C4. For every starting Session, when the provider rejects a login with an error, \<open>login\<close>
  rejects, the Session is what it was before the call, and the message of the rejection
  contains the provider's message. In the Supabase store the error is thrown by the client
  or returned in \<open>error\<close>. In the REST store the provider's message is the one in the
  body of the error response when there is one, the message of the failed request otherwise,
  and the \<open>message\<close> of a response that is not a success.
\<close>

theorem login_failure_leaves_session:
  "(r = AuthThrows e \<or> r = AuthReturns du ds (Some e) \<longrightarrow>
      (\<exists>m. login credentials r s = (Rejected m, s) \<and> sublist (auth_message e) m))
   \<and> (\<exists>m. fst (api_login credentials (Rejects ae) st) = Rejected m
        \<and> session (snd (api_login credentials (Rejects ae) st)) = session st
        \<and> (\<forall>rs msg. response ae = Some rs \<and> data_message rs = Some msg \<longrightarrow> sublist msg m)
        \<and> ((\<forall>rs. response ae = Some rs \<longrightarrow> \<not> truthy_opt (data_message rs)) \<longrightarrow>
              sublist (error_message ae) m))
   \<and> (\<not> (success resp \<and> data resp \<noteq> None) \<longrightarrow>
        (\<exists>m. api_login credentials (Resolves resp) st = (Rejected m, st)
           \<and> (\<forall>msg. message resp = Some msg \<longrightarrow> sublist msg m)))"
proof (intro conjI impI)
  assume "r = AuthThrows e \<or> r = AuthReturns du ds (Some e)"
  then have "login credentials r s = (Rejected (or_default (Some (auth_message e)) ''Login failed''), s)"
    by (auto simp: login_def login_try_def)
  then show "\<exists>m. login credentials r s = (Rejected m, s) \<and> sublist (auth_message e) m"
    using or_default_sublist by blast
next
  let ?m = "catch_message ae ''Login failed''"
  have 1: "fst (api_login credentials (Rejects ae) st) = Rejected ?m"
    by (simp add: api_login_def api_call_def api_sign_try_def)
  have 2: "session (snd (api_login credentials (Rejects ae) st)) = session st"
    by (simp add: api_login_def api_call_def api_sign_try_def)
  have 3: "sublist msg ?m" if "response ae = Some rs" "data_message rs = Some msg" for rs msg
    using that by (simp add: catch_message_def truthy_opt_def or_default_def truthy_def)
  have 4: "sublist (error_message ae) ?m"
    if "\<forall>rs. response ae = Some rs \<longrightarrow> \<not> truthy_opt (data_message rs)"
    using that
    by (cases "response ae") (simp_all add: catch_message_def truthy_opt_def or_default_sublist)
  from 1 2 3 4 show "\<exists>m. fst (api_login credentials (Rejects ae) st) = Rejected m
        \<and> session (snd (api_login credentials (Rejects ae) st)) = session st
        \<and> (\<forall>rs msg. response ae = Some rs \<and> data_message rs = Some msg \<longrightarrow> sublist msg m)
        \<and> ((\<forall>rs. response ae = Some rs \<longrightarrow> \<not> truthy_opt (data_message rs)) \<longrightarrow>
              sublist (error_message ae) m)"
    by blast
next
  assume n: "\<not> (success resp \<and> data resp \<noteq> None)"
  let ?x = "or_default (message resp) ''Login failed''"
  have x: "truthy ?x"
    by (simp add: or_default_def truthy_def split: option.splits)
  have "api_sign_try ''Login failed'' (Inr resp) st = Inl (thrown ?x)"
    using n by (auto simp: api_sign_try_def split: option.splits)
  moreover have "catch_message (thrown ?x) ''Login failed'' = ?x"
    using x by (simp add: catch_message_def thrown_def truthy_opt_def or_default_truthy)
  ultimately have "api_login credentials (Resolves resp) st = (Rejected ?x, st)"
    by (simp add: api_login_def api_call_def)
  moreover have "sublist msg ?x" if "message resp = Some msg" for msg
    using that by (simp add: or_default_sublist)
  ultimately show "\<exists>m. api_login credentials (Resolves resp) st = (Rejected m, st)
           \<and> (\<forall>msg. message resp = Some msg \<longrightarrow> sublist msg m)"
    by blast
qed

theorem login_failure_leaves_session_witness:
  "(\<exists>m. login \<lparr>cred_email = ''a@x.com'', cred_password = ''bad''\<rparr>
           (AuthReturns None None (Some (AuthError ''Invalid credentials''))) initial_session =
         (Rejected m, initial_session)
       \<and> sublist ''Invalid credentials'' m)
   \<and> (\<exists>m. api_login \<lparr>cred_email = ''a@x.com'', cred_password = ''bad''\<rparr>
           (Resolves \<lparr>success = False, data = None, message = Some ''Invalid credentials''\<rparr>)
           \<lparr>session = initial_session, auth_token = None\<rparr> =
         (Rejected m, \<lparr>session = initial_session, auth_token = None\<rparr>)
       \<and> sublist ''Invalid credentials'' m)"
  using
    login_failure_leaves_session [where
      r = "AuthReturns None None (Some (AuthError ''Invalid credentials''))"
      and e = "AuthError ''Invalid credentials''" and du = None and ds = None
      and credentials = "\<lparr>cred_email = ''a@x.com'', cred_password = ''bad''\<rparr>"
      and s = initial_session
      and resp = "\<lparr>success = False, data = None, message = Some ''Invalid credentials''\<rparr>"
      and st = "\<lparr>session = initial_session, auth_token = None\<rparr>"]
  by simp

text \<open>
  C5. For every starting Session and every outcome of the provider's sign-out request,
  failure included, \<open>logout\<close> resolves and the Session is
  \<open>{user: none, token: none, isAuthenticated: false}\<close>.
\<close>

theorem logout_clears_session:
  "logout r s = (Resolved, \<lparr>user = None, token = None, isAuthenticated = False\<rparr>)
   \<and> fst (api_logout ar st) = Resolved
   \<and> session (snd (api_logout ar st)) = \<lparr>user = None, token = None, isAuthenticated = False\<rparr>"
  by (simp add: logout_unauthenticated api_logout_state unauthenticated_def)

theorem logout_clears_session_witness:
  "logout (SignOutThrows (AuthError ''Failed to fetch''))
     \<lparr>user = Some \<lparr>user_id = ''1'', user_email = ''a@x.com'', user_name = ''A'',
                       user_role = ''user'', user_department = None,
                       createdAt = ''c'', updatedAt = ''u''\<rparr>,
         token = Some ''T1'', isAuthenticated = True\<rparr> =
     (Resolved, \<lparr>user = None, token = None, isAuthenticated = False\<rparr>)
   \<and> fst (api_logout (Rejects \<lparr>response = None, error_message = ''Network Error''\<rparr>)
            \<lparr>session = \<lparr>user = Some \<lparr>user_id = ''1'', user_email = ''a@x.com'', user_name = ''A'',
                       user_role = ''user'', user_department = None,
                       createdAt = ''c'', updatedAt = ''u''\<rparr>,
         token = Some ''T1'', isAuthenticated = True\<rparr>,
             auth_token = Some ''T1''\<rparr>) = Resolved
   \<and> session (snd (api_logout (Rejects \<lparr>response = None, error_message = ''Network Error''\<rparr>)
            \<lparr>session = \<lparr>user = Some \<lparr>user_id = ''1'', user_email = ''a@x.com'', user_name = ''A'',
                       user_role = ''user'', user_department = None,
                       createdAt = ''c'', updatedAt = ''u''\<rparr>,
         token = Some ''T1'', isAuthenticated = True\<rparr>,
             auth_token = Some ''T1''\<rparr>)) =
       \<lparr>user = None, token = None, isAuthenticated = False\<rparr>"
  by (rule logout_clears_session)

text \<open>
  C6, as stated, fails in the REST store: \<open>login\<close> there stores the user record of the
  response unchanged and applies no default. With a response whose user has an empty name
  and an empty role (the values the Supabase store replaces by the email and by
  \<^verbatim>\<open>user\<close>), after a successful login the stored name is not the email and the stored
  role is not \<^verbatim>\<open>user\<close>.
\<close>

theorem login_defaults_counterexample:
  "fst (api_login \<lparr>cred_email = ''a@x.com'', cred_password = ''pw''\<rparr>
          (Resolves \<lparr>success = True,
             data = Some \<lparr>payload_user =
                 \<lparr>user_id = ''1'', user_email = ''a@x.com'', user_name = '''',
                  user_role = '''', user_department = None,
                  createdAt = ''2024-01-01'', updatedAt = ''2024-01-02''\<rparr>,
               payload_token = ''T1''\<rparr>,
             message = None\<rparr>)
          \<lparr>session = initial_session, auth_token = None\<rparr>) = Resolved
   \<and> map_option user_name (user (session (snd (api_login
          \<lparr>cred_email = ''a@x.com'', cred_password = ''pw''\<rparr>
          (Resolves \<lparr>success = True,
             data = Some \<lparr>payload_user =
                 \<lparr>user_id = ''1'', user_email = ''a@x.com'', user_name = '''',
                  user_role = '''', user_department = None,
                  createdAt = ''2024-01-01'', updatedAt = ''2024-01-02''\<rparr>,
               payload_token = ''T1''\<rparr>,
             message = None\<rparr>)
          \<lparr>session = initial_session, auth_token = None\<rparr>)))) \<noteq> Some ''a@x.com''
   \<and> map_option user_role (user (session (snd (api_login
          \<lparr>cred_email = ''a@x.com'', cred_password = ''pw''\<rparr>
          (Resolves \<lparr>success = True,
             data = Some \<lparr>payload_user =
                 \<lparr>user_id = ''1'', user_email = ''a@x.com'', user_name = '''',
                  user_role = '''', user_department = None,
                  createdAt = ''2024-01-01'', updatedAt = ''2024-01-02''\<rparr>,
               payload_token = ''T1''\<rparr>,
             message = None\<rparr>)
          \<lparr>session = initial_session, auth_token = None\<rparr>)))) \<noteq> Some ''user''"
  by (simp add: api_login_def api_call_def api_sign_try_def authenticated_def)

text \<open>
  C6 (amended). On a successful login in the Supabase store (the provider returns a user and
  a session, and no error) the Session becomes the authenticated triple with the issued
  token, and the stored user is the canonical record built from the provider's user:
  \<open>id\<close>, \<open>email\<close> and the timestamps are copied; \<open>name\<close> is the name in the provider's
  metadata, and the email when the metadata is absent or holds no name or an empty one;
  \<open>role\<close> is the role in the metadata, and \<^verbatim>\<open>user\<close> when the metadata is absent or
  holds no role or an empty one; \<open>department\<close> is the department in the metadata, absent
  when the metadata is. On a successful login in the REST store the Session is the
  authenticated triple with the user record and the token of the response, unchanged: no
  default is applied.
\<close>

theorem login_normalises_user:
  "(\<exists>usr. login credentials (AuthReturns (Some u) (Some sess) None) s =
            (Resolved, \<lparr>user = Some usr, token = Some (access_token sess), isAuthenticated = True\<rparr>)
      \<and> user_id usr = sb_id u
      \<and> user_email usr = sb_email u
      \<and> user_name usr =
          (case sb_user_metadata u of
             None \<Rightarrow> sb_email u
           | Some md \<Rightarrow>
               (case md_name md of
                  None \<Rightarrow> sb_email u
                | Some n \<Rightarrow> if n = [] then sb_email u else n))
      \<and> user_role usr =
          (case sb_user_metadata u of
             None \<Rightarrow> ''user''
           | Some md \<Rightarrow>
               (case md_role md of
                  None \<Rightarrow> ''user''
                | Some x \<Rightarrow> if x = [] then ''user'' else x))
      \<and> user_department usr =
          (case sb_user_metadata u of None \<Rightarrow> None | Some md \<Rightarrow> md_department md)
      \<and> createdAt usr = created_at u
      \<and> updatedAt usr = updated_at u)
   \<and> (success resp \<and> data resp = Some p \<longrightarrow>
        api_login credentials (Resolves resp) st =
          (Resolved,
           \<lparr>session = \<lparr>user = Some (payload_user p), token = Some (payload_token p),
                        isAuthenticated = True\<rparr>,
            auth_token = Some (payload_token p)\<rparr>))"
proof
  have "login credentials (AuthReturns (Some u) (Some sess) None) s =
          (Resolved, authenticated (transform_user u) (access_token sess))"
    by (simp add: login_def login_try_def)
  then show "\<exists>usr. login credentials (AuthReturns (Some u) (Some sess) None) s =
            (Resolved, \<lparr>user = Some usr, token = Some (access_token sess), isAuthenticated = True\<rparr>)
      \<and> user_id usr = sb_id u
      \<and> user_email usr = sb_email u
      \<and> user_name usr =
          (case sb_user_metadata u of
             None \<Rightarrow> sb_email u
           | Some md \<Rightarrow>
               (case md_name md of
                  None \<Rightarrow> sb_email u
                | Some n \<Rightarrow> if n = [] then sb_email u else n))
      \<and> user_role usr =
          (case sb_user_metadata u of
             None \<Rightarrow> ''user''
           | Some md \<Rightarrow>
               (case md_role md of
                  None \<Rightarrow> ''user''
                | Some x \<Rightarrow> if x = [] then ''user'' else x))
      \<and> user_department usr =
          (case sb_user_metadata u of None \<Rightarrow> None | Some md \<Rightarrow> md_department md)
      \<and> createdAt usr = created_at u
      \<and> updatedAt usr = updated_at u"
    by (intro exI [of _ "transform_user u"])
       (simp add: authenticated_def transform_user_def or_default_cases metadata_field_def
          split: option.splits)
next
  show "success resp \<and> data resp = Some p \<longrightarrow>
        api_login credentials (Resolves resp) st =
          (Resolved,
           \<lparr>session = \<lparr>user = Some (payload_user p), token = Some (payload_token p),
                        isAuthenticated = True\<rparr>,
            auth_token = Some (payload_token p)\<rparr>)"
    by (simp add: api_login_def api_call_def api_sign_try_def authenticated_def)
qed

theorem login_normalises_user_witness:
  "login \<lparr>cred_email = ''a@x.com'', cred_password = ''pw''\<rparr>
     (AuthReturns
        (Some \<lparr>sb_id = ''1'', sb_email = ''a@x.com'', sb_user_metadata = None,
               created_at = ''2024-01-01'', updated_at = ''2024-01-02''\<rparr>)
        (Some \<lparr>access_token = ''T1'', session_user = None\<rparr>) None)
     initial_session =
     (Resolved,
      \<lparr>user = Some \<lparr>user_id = ''1'', user_email = ''a@x.com'', user_name = ''a@x.com'',
                     user_role = ''user'', user_department = None,
                     createdAt = ''2024-01-01'', updatedAt = ''2024-01-02''\<rparr>,
       token = Some ''T1'', isAuthenticated = True\<rparr>)
   \<and> login \<lparr>cred_email = ''b@x.com'', cred_password = ''pw''\<rparr>
     (AuthReturns
        (Some \<lparr>sb_id = ''2'', sb_email = ''b@x.com'',
               sb_user_metadata = Some \<lparr>md_name = Some ''Bea'', md_role = Some ''admin'',
                                         md_department = Some ''Ops''\<rparr>,
               created_at = ''2024-02-01'', updated_at = ''2024-02-02''\<rparr>)
        (Some \<lparr>access_token = ''T2'', session_user = None\<rparr>) None)
     initial_session =
     (Resolved,
      \<lparr>user = Some \<lparr>user_id = ''2'', user_email = ''b@x.com'', user_name = ''Bea'',
                     user_role = ''admin'', user_department = Some ''Ops'',
                     createdAt = ''2024-02-01'', updatedAt = ''2024-02-02''\<rparr>,
       token = Some ''T2'', isAuthenticated = True\<rparr>)
   \<and> login \<lparr>cred_email = ''c@x.com'', cred_password = ''pw''\<rparr>
     (AuthReturns
        (Some \<lparr>sb_id = ''3'', sb_email = ''c@x.com'',
               sb_user_metadata = Some \<lparr>md_name = Some '''', md_role = None,
                                         md_department = Some ''IT''\<rparr>,
               created_at = ''2024-03-01'', updated_at = ''2024-03-02''\<rparr>)
        (Some \<lparr>access_token = ''T3'', session_user = None\<rparr>) None)
     initial_session =
     (Resolved,
      \<lparr>user = Some \<lparr>user_id = ''3'', user_email = ''c@x.com'', user_name = ''c@x.com'',
                     user_role = ''user'', user_department = Some ''IT'',
                     createdAt = ''2024-03-01'', updatedAt = ''2024-03-02''\<rparr>,
       token = Some ''T3'', isAuthenticated = True\<rparr>)
   \<and> api_login \<lparr>cred_email = ''a@x.com'', cred_password = ''pw''\<rparr>
       (Resolves \<lparr>success = True,
          data = Some \<lparr>payload_user =
              \<lparr>user_id = ''1'', user_email = ''a@x.com'', user_name = '''',
               user_role = ''agent'', user_department = None,
               createdAt = ''c'', updatedAt = ''u''\<rparr>,
            payload_token = ''T1''\<rparr>,
          message = None\<rparr>)
       \<lparr>session = initial_session, auth_token = None\<rparr> =
     (Resolved,
      \<lparr>session = \<lparr>user = Some \<lparr>user_id = ''1'', user_email = ''a@x.com'', user_name = '''',
               user_role = ''agent'', user_department = None,
               createdAt = ''c'', updatedAt = ''u''\<rparr>,
                   token = Some ''T1'', isAuthenticated = True\<rparr>,
       auth_token = Some ''T1''\<rparr>)"
  using
    login_normalises_user [where
      credentials = "\<lparr>cred_email = ''a@x.com'', cred_password = ''pw''\<rparr>"
      and u = "\<lparr>sb_id = ''1'', sb_email = ''a@x.com'', sb_user_metadata = None,
               created_at = ''2024-01-01'', updated_at = ''2024-01-02''\<rparr>"
      and sess = "\<lparr>access_token = ''T1'', session_user = None\<rparr>"
      and s = initial_session
      and resp = "\<lparr>success = True,
          data = Some \<lparr>payload_user =
              \<lparr>user_id = ''1'', user_email = ''a@x.com'', user_name = '''',
               user_role = ''agent'', user_department = None,
               createdAt = ''c'', updatedAt = ''u''\<rparr>,
            payload_token = ''T1''\<rparr>,
          message = None\<rparr>"
      and p = "\<lparr>payload_user =
              \<lparr>user_id = ''1'', user_email = ''a@x.com'', user_name = '''',
               user_role = ''agent'', user_department = None,
               createdAt = ''c'', updatedAt = ''u''\<rparr>,
            payload_token = ''T1''\<rparr>"
      and st = "\<lparr>session = initial_session, auth_token = None\<rparr>"]
    login_normalises_user [where
      credentials = "\<lparr>cred_email = ''b@x.com'', cred_password = ''pw''\<rparr>"
      and u = "\<lparr>sb_id = ''2'', sb_email = ''b@x.com'',
               sb_user_metadata = Some \<lparr>md_name = Some ''Bea'', md_role = Some ''admin'',
                                         md_department = Some ''Ops''\<rparr>,
               created_at = ''2024-02-01'', updated_at = ''2024-02-02''\<rparr>"
      and sess = "\<lparr>access_token = ''T2'', session_user = None\<rparr>"
      and s = initial_session
      and resp = "\<lparr>success = False, data = None, message = None\<rparr>"
      and st = "\<lparr>session = initial_session, auth_token = None\<rparr>"]
    login_normalises_user [where
      credentials = "\<lparr>cred_email = ''c@x.com'', cred_password = ''pw''\<rparr>"
      and u = "\<lparr>sb_id = ''3'', sb_email = ''c@x.com'',
               sb_user_metadata = Some \<lparr>md_name = Some '''', md_role = None,
                                         md_department = Some ''IT''\<rparr>,
               created_at = ''2024-03-01'', updated_at = ''2024-03-02''\<rparr>"
      and sess = "\<lparr>access_token = ''T3'', session_user = None\<rparr>"
      and s = initial_session
      and resp = "\<lparr>success = False, data = None, message = None\<rparr>"
      and st = "\<lparr>session = initial_session, auth_token = None\<rparr>"]
  by auto

text \<open>
  C7, as stated, fails in the REST store: \<open>register\<close> there stores the user record of the
  response unchanged. With a response whose user has role \<^verbatim>\<open>admin\<close> and name
  \<^verbatim>\<open>Root\<close>, after a successful registration of \<^verbatim>\<open>Alice\<close> the stored role is not
  \<^verbatim>\<open>user\<close> and the stored name is not the submitted one.
\<close>

theorem register_role_counterexample:
  "fst (api_register
          \<lparr>reg_email = ''a@x.com'', reg_password = ''pw'', reg_name = ''Alice'',
           reg_department = Some ''Ops''\<rparr>
          (Resolves \<lparr>success = True,
             data = Some \<lparr>payload_user =
                 \<lparr>user_id = ''1'', user_email = ''a@x.com'', user_name = ''Root'',
                  user_role = ''admin'', user_department = None,
                  createdAt = ''2024-01-01'', updatedAt = ''2024-01-01''\<rparr>,
               payload_token = ''T1''\<rparr>,
             message = None\<rparr>)
          \<lparr>session = initial_session, auth_token = None\<rparr>) = Resolved
   \<and> map_option user_role (user (session (snd (api_register
          \<lparr>reg_email = ''a@x.com'', reg_password = ''pw'', reg_name = ''Alice'',
           reg_department = Some ''Ops''\<rparr>
          (Resolves \<lparr>success = True,
             data = Some \<lparr>payload_user =
                 \<lparr>user_id = ''1'', user_email = ''a@x.com'', user_name = ''Root'',
                  user_role = ''admin'', user_department = None,
                  createdAt = ''2024-01-01'', updatedAt = ''2024-01-01''\<rparr>,
               payload_token = ''T1''\<rparr>,
             message = None\<rparr>)
          \<lparr>session = initial_session, auth_token = None\<rparr>)))) \<noteq> Some ''user''
   \<and> map_option user_name (user (session (snd (api_register
          \<lparr>reg_email = ''a@x.com'', reg_password = ''pw'', reg_name = ''Alice'',
           reg_department = Some ''Ops''\<rparr>
          (Resolves \<lparr>success = True,
             data = Some \<lparr>payload_user =
                 \<lparr>user_id = ''1'', user_email = ''a@x.com'', user_name = ''Root'',
                  user_role = ''admin'', user_department = None,
                  createdAt = ''2024-01-01'', updatedAt = ''2024-01-01''\<rparr>,
               payload_token = ''T1''\<rparr>,
             message = None\<rparr>)
          \<lparr>session = initial_session, auth_token = None\<rparr>)))) \<noteq> Some ''Alice''"
  by (simp add: api_register_def api_call_def api_sign_try_def authenticated_def)

text \<open>
  C7 (amended). On a successful register in the Supabase store, the stored user has role
  \<^verbatim>\<open>user\<close> whatever the provider reports, its name and department are the submitted
  ones, the other fields come from the provider's user, and the Session is the authenticated
  triple with the issued token. On a successful register in the REST store, the Session is
  the authenticated triple with the user record and the token of the response, unchanged.
\<close>

theorem register_stored_user:
  "(\<exists>usr. register userData (AuthReturns (Some u) (Some sess) None) s =
            (Resolved, \<lparr>user = Some usr, token = Some (access_token sess), isAuthenticated = True\<rparr>)
      \<and> user_role usr = ''user''
      \<and> user_name usr = reg_name userData
      \<and> user_department usr = reg_department userData
      \<and> user_id usr = sb_id u
      \<and> user_email usr = sb_email u
      \<and> createdAt usr = created_at u
      \<and> updatedAt usr = updated_at u)
   \<and> (success resp \<and> data resp = Some p \<longrightarrow>
        api_register userData (Resolves resp) st =
          (Resolved,
           \<lparr>session = \<lparr>user = Some (payload_user p), token = Some (payload_token p),
                        isAuthenticated = True\<rparr>,
            auth_token = Some (payload_token p)\<rparr>))"
proof
  have "register userData (AuthReturns (Some u) (Some sess) None) s =
          (Resolved, authenticated (transform_registered userData u) (access_token sess))"
    by (simp add: register_def register_try_def)
  then show "\<exists>usr. register userData (AuthReturns (Some u) (Some sess) None) s =
            (Resolved, \<lparr>user = Some usr, token = Some (access_token sess), isAuthenticated = True\<rparr>)
      \<and> user_role usr = ''user''
      \<and> user_name usr = reg_name userData
      \<and> user_department usr = reg_department userData
      \<and> user_id usr = sb_id u
      \<and> user_email usr = sb_email u
      \<and> createdAt usr = created_at u
      \<and> updatedAt usr = updated_at u"
    by (intro exI [of _ "transform_registered userData u"])
       (simp add: authenticated_def transform_registered_def)
next
  show "success resp \<and> data resp = Some p \<longrightarrow>
        api_register userData (Resolves resp) st =
          (Resolved,
           \<lparr>session = \<lparr>user = Some (payload_user p), token = Some (payload_token p),
                        isAuthenticated = True\<rparr>,
            auth_token = Some (payload_token p)\<rparr>)"
    by (simp add: api_register_def api_call_def api_sign_try_def authenticated_def)
qed

theorem register_stored_user_witness:
  "register \<lparr>reg_email = ''a@x.com'', reg_password = ''pw'', reg_name = ''Alice'',
             reg_department = Some ''Ops''\<rparr>
     (AuthReturns
        (Some \<lparr>sb_id = ''1'', sb_email = ''a@x.com'',
               sb_user_metadata = Some \<lparr>md_name = Some ''Root'', md_role = Some ''admin'',
                                         md_department = None\<rparr>,
               created_at = ''2024-01-01'', updated_at = ''2024-01-02''\<rparr>)
        (Some \<lparr>access_token = ''T1'', session_user = None\<rparr>) None)
     initial_session =
     (Resolved,
      \<lparr>user = Some \<lparr>user_id = ''1'', user_email = ''a@x.com'', user_name = ''Alice'',
                     user_role = ''user'', user_department = Some ''Ops'',
                     createdAt = ''2024-01-01'', updatedAt = ''2024-01-02''\<rparr>,
       token = Some ''T1'', isAuthenticated = True\<rparr>)
   \<and> api_register \<lparr>reg_email = ''a@x.com'', reg_password = ''pw'', reg_name = ''Alice'',
             reg_department = Some ''Ops''\<rparr>
       (Resolves \<lparr>success = True,
          data = Some \<lparr>payload_user =
              \<lparr>user_id = ''1'', user_email = ''a@x.com'', user_name = ''Root'',
               user_role = ''admin'', user_department = None,
               createdAt = ''c'', updatedAt = ''u''\<rparr>,
            payload_token = ''T1''\<rparr>,
          message = None\<rparr>)
       \<lparr>session = initial_session, auth_token = None\<rparr> =
     (Resolved,
      \<lparr>session = \<lparr>user = Some \<lparr>user_id = ''1'', user_email = ''a@x.com'', user_name = ''Root'',
               user_role = ''admin'', user_department = None,
               createdAt = ''c'', updatedAt = ''u''\<rparr>,
                   token = Some ''T1'', isAuthenticated = True\<rparr>,
       auth_token = Some ''T1''\<rparr>)"
  using
    register_stored_user [where
      userData = "\<lparr>reg_email = ''a@x.com'', reg_password = ''pw'', reg_name = ''Alice'',
             reg_department = Some ''Ops''\<rparr>"
      and u = "\<lparr>sb_id = ''1'', sb_email = ''a@x.com'',
               sb_user_metadata = Some \<lparr>md_name = Some ''Root'', md_role = Some ''admin'',
                                         md_department = None\<rparr>,
               created_at = ''2024-01-01'', updated_at = ''2024-01-02''\<rparr>"
      and sess = "\<lparr>access_token = ''T1'', session_user = None\<rparr>"
      and s = initial_session
      and resp = "\<lparr>success = True,
          data = Some \<lparr>payload_user =
              \<lparr>user_id = ''1'', user_email = ''a@x.com'', user_name = ''Root'',
               user_role = ''admin'', user_department = None,
               createdAt = ''c'', updatedAt = ''u''\<rparr>,
            payload_token = ''T1''\<rparr>,
          message = None\<rparr>"
      and p = "\<lparr>payload_user =
              \<lparr>user_id = ''1'', user_email = ''a@x.com'', user_name = ''Root'',
               user_role = ''admin'', user_department = None,
               createdAt = ''c'', updatedAt = ''u''\<rparr>,
            payload_token = ''T1''\<rparr>"
      and st = "\<lparr>session = initial_session, auth_token = None\<rparr>"]
  by auto

text \<open>
  C8. The subscription handler of the Auth Facade: on the \<^verbatim>\<open>SIGNED_OUT\<close> event it calls
  \<open>logout\<close> and not \<open>checkAuth\<close>; on any other event that comes with a session it calls
  \<open>checkAuth\<close>. Over the mount of a view and any number of re-renders, the effect of the
  facade calls \<open>checkAuth\<close> exactly once (in the Supabase facade and in the REST facade).
\<close>

theorem facade_dispatch:
  "auth_state_listener ''SIGNED_OUT'' sess = [CallLogout]
   \<and> CallCheckAuth \<notin> set (auth_state_listener ''SIGNED_OUT'' sess)
   \<and> (event \<noteq> ''SIGNED_OUT'' \<longrightarrow> auth_state_listener event (Some payload) = [CallCheckAuth])
   \<and> count_list (view_effects useAuth_effect n) (Invoke CallCheckAuth) = 1
   \<and> count_list (view_effects api_useAuth_effect n) (Invoke CallCheckAuth) = 1"
  by (simp add: auth_state_listener_def view_effects_mount_only useAuth_effect_def
        api_useAuth_effect_def)

theorem facade_dispatch_witness:
  "auth_state_listener ''SIGNED_OUT'' (Some \<lparr>access_token = ''T1'', session_user = None\<rparr>) =
     [CallLogout]
   \<and> ''TOKEN_REFRESHED'' \<noteq> ''SIGNED_OUT''
   \<and> auth_state_listener ''TOKEN_REFRESHED'' (Some \<lparr>access_token = ''T1'', session_user = None\<rparr>) =
       [CallCheckAuth]
   \<and> count_list (view_effects useAuth_effect 3) (Invoke CallCheckAuth) = 1
   \<and> count_list (view_effects api_useAuth_effect 3) (Invoke CallCheckAuth) = 1"
  using facade_dispatch [where sess = "Some \<lparr>access_token = ''T1'', session_user = None\<rparr>"
      and event = "''TOKEN_REFRESHED''"
      and payload = "\<lparr>access_token = ''T1'', session_user = None\<rparr>" and n = 3]
  by simp

text \<open>
  C9. \<open>checkAuth\<close> is idempotent: for every Session and a fixed answer of the provider,
  a second \<open>checkAuth\<close> right after the first leaves the Session of the first. In the REST
  store this holds for the Session together with the stored token.
\<close>

theorem checkAuth_idempotent:
  "snd (checkAuth r (snd (checkAuth r s))) = snd (checkAuth r s)
   \<and> snd (api_checkAuth ar (snd (api_checkAuth ar st))) = snd (api_checkAuth ar st)"
proof
  show "snd (checkAuth r (snd (checkAuth r s))) = snd (checkAuth r s)"
    by (simp add: checkAuth_def checkAuth_try_def
          split: get_session_response.splits option.splits)
next
  show "snd (api_checkAuth ar (snd (api_checkAuth ar st))) = snd (api_checkAuth ar st)"
  proof (cases "auth_token st")
    case None
    then show ?thesis by (simp add: api_checkAuth_def)
  next
    case (Some tok)
    show ?thesis
    proof (cases "truthy tok")
      case False
      with Some show ?thesis by (simp add: api_checkAuth_def)
    next
      case True
      show ?thesis
      proof (cases ar)
        case (Rejects e)
        with Some True show ?thesis
          by (simp add: api_checkAuth_def api_call_def api_checkAuth_try_def)
      next
        case (Resolves resp)
        with Some True show ?thesis
          by (cases "data resp"; cases "success resp")
             (simp_all add: api_checkAuth_def api_call_def api_checkAuth_try_def)
      qed
    qed
  qed
qed

theorem checkAuth_idempotent_witness:
  "snd (checkAuth (GetSessionReturns None)
          (snd (checkAuth (GetSessionReturns None)
                  \<lparr>user = Some \<lparr>user_id = ''1'', user_email = ''a@x.com'', user_name = ''A'',
                       user_role = ''user'', user_department = None,
                       createdAt = ''c'', updatedAt = ''u''\<rparr>,
         token = Some ''T1'', isAuthenticated = True\<rparr>))) =
     snd (checkAuth (GetSessionReturns None)
            \<lparr>user = Some \<lparr>user_id = ''1'', user_email = ''a@x.com'', user_name = ''A'',
                       user_role = ''user'', user_department = None,
                       createdAt = ''c'', updatedAt = ''u''\<rparr>,
         token = Some ''T1'', isAuthenticated = True\<rparr>)
   \<and> snd (api_checkAuth (Rejects \<lparr>response = None, error_message = ''Network Error''\<rparr>)
          (snd (api_checkAuth (Rejects \<lparr>response = None, error_message = ''Network Error''\<rparr>)
                  \<lparr>session = initial_session, auth_token = Some ''T0''\<rparr>))) =
     snd (api_checkAuth (Rejects \<lparr>response = None, error_message = ''Network Error''\<rparr>)
            \<lparr>session = initial_session, auth_token = Some ''T0''\<rparr>)"
  by (rule checkAuth_idempotent)

text \<open>
  C10. In the Supabase store, when sign-in or sign-up returns no error but no user or no
  session, \<open>login\<close> and \<open>register\<close> resolve and leave the Session as it was; a Session
  that was not authenticated is still not authenticated after the ``successful'' call.
\<close>

theorem missing_user_or_session_resolves_unchanged:
  assumes "du = None \<or> ds = None"
  shows "login credentials (AuthReturns du ds None) s = (Resolved, s)
         \<and> register userData (AuthReturns du ds None) s = (Resolved, s)
         \<and> (\<not> isAuthenticated s \<longrightarrow>
              \<not> isAuthenticated (snd (login credentials (AuthReturns du ds None) s))
              \<and> \<not> isAuthenticated (snd (register userData (AuthReturns du ds None) s)))"
  using assms
  by (auto simp: login_def login_try_def register_def register_try_def split: option.splits)

theorem missing_user_or_session_resolves_unchanged_witness:
  "login \<lparr>cred_email = ''a@x.com'', cred_password = ''pw''\<rparr>
     (AuthReturns
        (Some \<lparr>sb_id = ''1'', sb_email = ''a@x.com'', sb_user_metadata = None,
               created_at = ''c'', updated_at = ''u''\<rparr>)
        None None)
     initial_session = (Resolved, initial_session)
   \<and> register \<lparr>reg_email = ''a@x.com'', reg_password = ''pw'', reg_name = ''Alice'',
                reg_department = None\<rparr>
     (AuthReturns
        (Some \<lparr>sb_id = ''1'', sb_email = ''a@x.com'', sb_user_metadata = None,
               created_at = ''c'', updated_at = ''u''\<rparr>)
        None None)
     initial_session = (Resolved, initial_session)
   \<and> \<not> isAuthenticated initial_session"
  using
    missing_user_or_session_resolves_unchanged [where
      du = "Some \<lparr>sb_id = ''1'', sb_email = ''a@x.com'', sb_user_metadata = None,
               created_at = ''c'', updated_at = ''u''\<rparr>"
      and ds = None
      and credentials = "\<lparr>cred_email = ''a@x.com'', cred_password = ''pw''\<rparr>"
      and userData = "\<lparr>reg_email = ''a@x.com'', reg_password = ''pw'', reg_name = ''Alice'',
                reg_department = None\<rparr>"
      and s = initial_session]
  by (simp add: initial_session_def)

end
